theory Spec2Isabelle
  imports Complex_Main "HOL-Library.Multiset"
begin

section \<open>Time and SQL values\<close>

text \<open>
  A PostgreSQL \<^verbatim>\<open>TIMESTAMP\<close> is a count of microseconds; \<^verbatim>\<open>now()\<close> is an
  argument of every query that reads it. \<^verbatim>\<open>INTERVAL '1 hour' * n\<close> is \<open>n\<close> times
  3600000000 microseconds. A nullable column is an \<open>option\<close> (\<open>None\<close> is NULL); a
  \<^verbatim>\<open>WHERE\<close> or \<^verbatim>\<open>ON\<close> condition keeps a row only when it is true, so a comparison
  with NULL drops the row. \<^verbatim>\<open>DOUBLE PRECISION\<close> values are read as the real numbers
  they denote. A table is the list of its rows.
\<close>

type_synonym timestamp = int

definition interval_hours :: "int \<Rightarrow> int" where
  "interval_hours n = 3600000000 * n"

definition order_by_desc :: "('a \<Rightarrow> int) \<Rightarrow> 'a list \<Rightarrow> 'a list" where
  "order_by_desc k rows = sort_key (\<lambda>r. - k r) rows"

definition limit :: "nat \<Rightarrow> 'a list \<Rightarrow> 'a list" where
  "limit n rows = take n rows"

section \<open>Tables of \<^verbatim>\<open>db/init_db.sql\<close>\<close>

text \<open>
  The columns \<^verbatim>\<open>id\<close> and \<^verbatim>\<open>created_at\<close> of \<^verbatim>\<open>score\<close> are filled by the database
  and read by no query below; the record leaves them out.
\<close>

record score_row =
  s_issuer_id :: "int option"
  s_ts :: timestamp
  s_score :: real
  s_bucket :: string
  s_base :: "real option"
  s_market :: "real option"
  s_event_delta :: "real option"
  s_macro_adj :: "real option"
  s_model_version :: "string option"
  s_explanation :: "string option"

section \<open>\<^verbatim>\<open>get_latest_score\<close>\<close>

record latest_score =
  ls_score :: real
  ls_bucket :: string
  ls_ts :: timestamp
  ls_base :: "real option"
  ls_market :: "real option"
  ls_event_delta :: "real option"
  ls_macro_adj :: "real option"

definition latest_score_of :: "score_row \<Rightarrow> latest_score" where
  "latest_score_of s =
     \<lparr>ls_score = s_score s, ls_bucket = s_bucket s, ls_ts = s_ts s, ls_base = s_base s,
      ls_market = s_market s, ls_event_delta = s_event_delta s, ls_macro_adj = s_macro_adj s\<rparr>"

definition get_latest_score :: "int \<Rightarrow> score_row list \<Rightarrow> latest_score list" where
  "get_latest_score issuer_id_param score =
     map latest_score_of
       (limit 1 (order_by_desc s_ts
          (filter (\<lambda>s. s_issuer_id s = Some issuer_id_param) score)))"

section \<open>\<^verbatim>\<open>get_score_change\<close>\<close>

text \<open>
  A scalar subquery over no row is NULL. \<^verbatim>\<open>COALESCE(a, b)\<close> is \<open>b\<close> when \<open>a\<close> is NULL.
  \<^verbatim>\<open>CROSS JOIN\<close> pairs every row of the left side with every row of the right side.
\<close>

definition scalar_subquery :: "'a list \<Rightarrow> 'a option" where
  "scalar_subquery rows = (case rows of [] \<Rightarrow> None | r # _ \<Rightarrow> Some r)"

definition coalesce :: "'a option \<Rightarrow> 'a \<Rightarrow> 'a" where
  "coalesce a b = (case a of None \<Rightarrow> b | Some v \<Rightarrow> v)"

definition cross_join :: "'a list \<Rightarrow> 'b list \<Rightarrow> ('a \<times> 'b) list" where
  "cross_join ls rs = concat (map (\<lambda>l. map (\<lambda>r. (l, r)) rs) ls)"

definition sql_le :: "timestamp \<Rightarrow> timestamp option \<Rightarrow> bool" where
  "sql_le t bound = (case bound of None \<Rightarrow> False | Some b \<Rightarrow> t \<le> b)"

record score_change =
  sc_score_change :: real
  sc_current_score :: real
  sc_previous_score :: real

definition current_score :: "int \<Rightarrow> score_row list \<Rightarrow> (real \<times> timestamp) list" where
  "current_score issuer_id_param score =
     map (\<lambda>s. (s_score s, s_ts s))
       (limit 1 (order_by_desc s_ts
          (filter (\<lambda>s. s_issuer_id s = Some issuer_id_param) score)))"

definition previous_score :: "int \<Rightarrow> int \<Rightarrow> score_row list \<Rightarrow> real option list" where
  "previous_score issuer_id_param hours_back score =
     map (\<lambda>s. Some (s_score s))
       (limit 1 (order_by_desc s_ts
          (filter (\<lambda>s. s_issuer_id s = Some issuer_id_param \<and>
                       sql_le (s_ts s)
                         (map_option (\<lambda>t. t - interval_hours hours_back)
                            (scalar_subquery (map snd (current_score issuer_id_param score)))))
             score)))"

definition get_score_change :: "int \<Rightarrow> int \<Rightarrow> score_row list \<Rightarrow> score_change list" where
  "get_score_change issuer_id_param hours_back score =
     map (\<lambda>(cs, ps).
            \<lparr>sc_score_change = fst cs - coalesce ps (fst cs),
             sc_current_score = fst cs,
             sc_previous_score = coalesce ps (fst cs)\<rparr>)
       (cross_join (current_score issuer_id_param score)
                   (previous_score issuer_id_param hours_back score))"

definition get_score_change_hours_back_default :: int where
  "get_score_change_hours_back_default = 24"

section \<open>\<^verbatim>\<open>get_active_events\<close>\<close>

text \<open>The columns \<^verbatim>\<open>created_at\<close> and \<^verbatim>\<open>updated_at\<close> are left out of every record.\<close>

record event_row =
  e_id :: int
  e_issuer_id :: "int option"
  e_ts :: timestamp
  e_type :: string
  e_sentiment :: "real option"
  e_weight :: "real option"
  e_headline :: "string option"
  e_url :: "string option"
  e_raw_hash :: "string option"
  e_decay_factor :: "real option"
  e_source :: "string option"

record active_event =
  ae_event_id :: int
  ae_event_type :: string
  ae_headline :: "string option"
  ae_sentiment :: "real option"
  ae_weight :: "real option"
  ae_decay_factor :: "real option"
  ae_ts :: timestamp

definition active_event_of :: "event_row \<Rightarrow> active_event" where
  "active_event_of e =
     \<lparr>ae_event_id = e_id e, ae_event_type = e_type e, ae_headline = e_headline e,
      ae_sentiment = e_sentiment e, ae_weight = e_weight e,
      ae_decay_factor = e_decay_factor e, ae_ts = e_ts e\<rparr>"

definition sql_gt :: "real option \<Rightarrow> real \<Rightarrow> bool" where
  "sql_gt c v = (case c of None \<Rightarrow> False | Some x \<Rightarrow> x > v)"

definition get_active_events ::
  "int \<Rightarrow> int \<Rightarrow> timestamp \<Rightarrow> event_row list \<Rightarrow> active_event list" where
  "get_active_events issuer_id_param hours_back now event =
     map active_event_of
       (order_by_desc e_ts
          (filter (\<lambda>e. e_issuer_id e = Some issuer_id_param \<and>
                       e_ts e \<ge> now - interval_hours hours_back \<and>
                       sql_gt (e_decay_factor e) 0.1)
             event))"

definition get_active_events_hours_back_default :: int where
  "get_active_events_hours_back_default = 168"

section \<open>The view \<^verbatim>\<open>recent_alerts\<close>\<close>

record issuer_row =
  i_id :: int
  i_name :: string
  i_ticker :: "string option"
  i_cik :: "string option"
  i_sector :: "string option"
  i_country :: "string option"

record alert_subscription_row =
  asub_id :: int
  asub_issuer_id :: "int option"
  asub_email :: "string option"
  asub_webhook_url :: "string option"
  asub_threshold :: "real option"
  asub_is_active :: "bool option"

record alert_history_row =
  ah_id :: int
  ah_subscription_id :: "int option"
  ah_issuer_id :: "int option"
  ah_alert_type :: string
  ah_message :: "string option"
  ah_score_change :: "real option"
  ah_triggered_at :: "timestamp option"

record recent_alert =
  ra_id :: int
  ra_alert_type :: string
  ra_message :: "string option"
  ra_score_change :: "real option"
  ra_triggered_at :: "timestamp option"
  ra_issuer_name :: string
  ra_ticker :: "string option"
  ra_email :: "string option"
  ra_webhook_url :: "string option"

text \<open>
  \<^verbatim>\<open>JOIN ... ON\<close> keeps the pairs whose condition is true; \<^verbatim>\<open>LEFT JOIN ... ON\<close> keeps
  them too and gives a left row without partner one row whose right side is NULL.
\<close>

definition inner_join :: "('a \<Rightarrow> 'b \<Rightarrow> bool) \<Rightarrow> 'a list \<Rightarrow> 'b list \<Rightarrow> ('a \<times> 'b) list" where
  "inner_join on ls rs = concat (map (\<lambda>l. map (\<lambda>r. (l, r)) (filter (on l) rs)) ls)"

definition left_join ::
  "('a \<Rightarrow> 'b \<Rightarrow> bool) \<Rightarrow> 'a list \<Rightarrow> 'b list \<Rightarrow> ('a \<times> 'b option) list" where
  "left_join on ls rs =
     concat (map (\<lambda>l. case filter (on l) rs of
                         [] \<Rightarrow> [(l, None)]
                       | ms \<Rightarrow> map (\<lambda>r. (l, Some r)) ms) ls)"

definition recent_alert_of ::
  "(alert_history_row \<times> issuer_row) \<times> alert_subscription_row option \<Rightarrow> recent_alert" where
  "recent_alert_of j =
     (case j of ((ah, i), asub) \<Rightarrow>
        \<lparr>ra_id = ah_id ah, ra_alert_type = ah_alert_type ah, ra_message = ah_message ah,
         ra_score_change = ah_score_change ah, ra_triggered_at = ah_triggered_at ah,
         ra_issuer_name = i_name i, ra_ticker = i_ticker i,
         ra_email = Option.bind asub asub_email,
         ra_webhook_url = Option.bind asub asub_webhook_url\<rparr>)"

text \<open>
  The \<^verbatim>\<open>WHERE\<close> clause keeps a row only when \<^verbatim>\<open>triggered_at\<close> is not NULL and at or
  after the bound; the kept rows are paired with that timestamp, which is the sort key of
  \<^verbatim>\<open>ORDER BY ah.triggered_at DESC\<close>.
\<close>

definition where_triggered_since :: "timestamp \<Rightarrow>
    ((alert_history_row \<times> issuer_row) \<times> alert_subscription_row option) list \<Rightarrow>
    (timestamp \<times> (alert_history_row \<times> issuer_row) \<times> alert_subscription_row option) list" where
  "where_triggered_since bound js =
     concat (map (\<lambda>j. case ah_triggered_at (fst (fst j)) of
                         None \<Rightarrow> []
                       | Some t \<Rightarrow> if t \<ge> bound then [(t, j)] else []) js)"

definition recent_alerts ::
  "timestamp \<Rightarrow> alert_history_row list \<Rightarrow> issuer_row list \<Rightarrow> alert_subscription_row list \<Rightarrow>
   recent_alert list" where
  "recent_alerts now alert_history issuer alert_subscription =
     map (recent_alert_of \<circ> snd)
       (order_by_desc fst
          (where_triggered_since (now - interval_hours 24)
             (left_join (\<lambda>(ah, i) asub. ah_subscription_id ah = Some (asub_id asub))
                (inner_join (\<lambda>ah i. ah_issuer_id ah = Some (i_id i)) alert_history issuer)
                alert_subscription)))"

section \<open>The historical Score rows of the metrics fix script\<close>

text \<open>
  Every tuple of the \<^verbatim>\<open>INSERT INTO score\<close> statement gives the issuer, the age in hours
  (\<^verbatim>\<open>NOW() - INTERVAL 'h hours'\<close>), the score, the bucket and the four pillars; the model
  version and the explanation are the same in every tuple.
\<close>

definition values_row ::
  "timestamp \<Rightarrow> int \<Rightarrow> int \<Rightarrow> real \<Rightarrow> string \<Rightarrow> real \<Rightarrow> real \<Rightarrow> real \<Rightarrow> real \<Rightarrow> score_row" where
  \<open>values_row now issuer_id hours score bucket base market event_delta macro_adj =
     \<lparr>s_issuer_id = Some issuer_id, s_ts = now - interval_hours hours, s_score = score,
      s_bucket = bucket, s_base = Some base, s_market = Some market,
      s_event_delta = Some event_delta, s_macro_adj = Some macro_adj,
      s_model_version = Some ''v1.0-mock'',
      s_explanation = Some ''{"source": "mock", "explanation": "Previous score"}''\<rparr>\<close>





text \<open>
  In SQL a sum with a NULL operand is NULL.
\<close>

definition sql_add :: "real option \<Rightarrow> real option \<Rightarrow> real option" where
  "sql_add a b = (case (a, b) of (Some x, Some y) \<Rightarrow> Some (x + y) | _ \<Rightarrow> None)"






section \<open>The default model metadata\<close>

datatype json = JNumber real | JString string | JObject "(string \<times> json) list"

definition json_field :: "string \<Rightarrow> json \<Rightarrow> json option" where
  "json_field k j = (case j of JObject kvs \<Rightarrow> map_of kvs k | _ \<Rightarrow> None)"

definition json_number :: "json \<Rightarrow> real option" where
  "json_number j = (case j of JNumber x \<Rightarrow> Some x | _ \<Rightarrow> None)"

record model_metadata_row =
  mm_model_version :: string
  mm_model_type :: string
  mm_training_date :: "timestamp option"
  mm_performance_metrics :: "json option"
  mm_feature_importance :: "json option"
  mm_hyperparameters :: "json option"

definition default_model_metadata :: "timestamp \<Rightarrow> model_metadata_row" where
  "default_model_metadata now =
     \<lparr>mm_model_version = ''v1.0'', mm_model_type = ''EBM'', mm_training_date = Some now,
      mm_performance_metrics = None, mm_feature_importance = None,
      mm_hyperparameters = Some (JObject [(''scoring_weights'',
         JObject [(''base'', JNumber 0.55), (''market'', JNumber 0.25),
                  (''event'', JNumber 0.12), (''macro'', JNumber 0.08)])])\<rparr>"

definition scoring_weight :: "model_metadata_row \<Rightarrow> string \<Rightarrow> real option" where
  "scoring_weight mm pillar =
     Option.bind (mm_hyperparameters mm) (\<lambda>h.
       Option.bind (json_field ''scoring_weights'' h) (\<lambda>w.
         Option.bind (json_field pillar w) json_number))"

text \<open>The settings written by \<^verbatim>\<open>setup_env.sh\<close>.\<close>

definition SCORING_WEIGHTS_BASE :: real where "SCORING_WEIGHTS_BASE = 0.55"
definition SCORING_WEIGHTS_MARKET :: real where "SCORING_WEIGHTS_MARKET = 0.25"
definition SCORING_WEIGHTS_EVENT :: real where "SCORING_WEIGHTS_EVENT = 0.12"
definition SCORING_WEIGHTS_MACRO :: real where "SCORING_WEIGHTS_MACRO = 0.08"
definition EVENT_HALF_LIFE_DAYS :: real where "EVENT_HALF_LIFE_DAYS = 7"
definition ALERT_THRESHOLD_HOURS :: int where "ALERT_THRESHOLD_HOURS = 24"

section \<open>Event decay\<close>

text \<open>
  The sources give the column default \<^verbatim>\<open>decay_factor DOUBLE PRECISION DEFAULT 1.0\<close> of
  a new event and the half-life setting in days, which is 7 times 24 hours.
\<close>

definition event_decay_factor_default :: real where
  "event_decay_factor_default = 1.0"

definition default_half_life_hours :: real where
  "default_half_life_hours = EVENT_HALF_LIFE_DAYS * 24"

text \<open>
  Modelled from the spec: the Event Decay Tracker is not among the sources. The elapsed
  time of an event is the time from its timestamp to now, in hours.
\<close>

definition elapsed_hours :: "event_row \<Rightarrow> timestamp \<Rightarrow> real" where
  "elapsed_hours event now = real_of_int (now - e_ts event) / 3600000000"

text \<open>
  Modelled from the spec: the Event Decay Tracker is not among the sources. Its decay
  factor is \<^verbatim>\<open>exp(-ln(2) * elapsed_hours / half_life_hours)\<close>, over the real numbers.
\<close>

definition decay_factor :: "real \<Rightarrow> event_row \<Rightarrow> timestamp \<Rightarrow> real" where
  "decay_factor half_life_hours event now =
     exp (- ln 2 * elapsed_hours event now / half_life_hours)"

section \<open>Alert evaluation\<close>

text \<open>
  Modelled from the spec: the Alert Evaluator is not among the sources, which hold the
  tables \<^verbatim>\<open>alert_subscription\<close> and \<^verbatim>\<open>alert_history\<close> only. A score change qualifies
  for an active subscription when its absolute value reaches the threshold.
\<close>

definition qualifies :: "alert_subscription_row \<Rightarrow> real \<Rightarrow> bool" where
  "qualifies asub score_change =
     (asub_is_active asub = Some True \<and>
      (case asub_threshold asub of None \<Rightarrow> False | Some threshold \<Rightarrow> \<bar>score_change\<bar> \<ge> threshold))"

text \<open>
  Modelled from the spec: the dedupe check of the Alert Evaluator. A subscription is
  alerted when one of its \<^verbatim>\<open>alert_history\<close> rows has \<^verbatim>\<open>triggered_at\<close> within the
  dedupe window that ends now.
\<close>

definition alerted_in_window ::
  "int \<Rightarrow> alert_subscription_row \<Rightarrow> timestamp \<Rightarrow> alert_history_row list \<Rightarrow> bool" where
  "alerted_in_window dedupe_hours asub now alert_history =
     list_ex (\<lambda>ah. ah_subscription_id ah = Some (asub_id asub) \<and>
                  (case ah_triggered_at ah of
                     None \<Rightarrow> False
                   | Some t \<Rightarrow> now - interval_hours dedupe_hours \<le> t \<and> t \<le> now))
       alert_history"

text \<open>
  Modelled from the spec: the row that the Alert Evaluator writes. Its id comes from the
  table's sequence, its type and message from a template; the three are an argument.
\<close>

definition new_alert ::
  "alert_subscription_row \<Rightarrow> timestamp \<Rightarrow> real \<Rightarrow> int \<times> string \<times> string option \<Rightarrow>
   alert_history_row" where
  "new_alert asub now score_change templ =
     \<lparr>ah_id = fst templ, ah_subscription_id = Some (asub_id asub),
      ah_issuer_id = asub_issuer_id asub, ah_alert_type = fst (snd templ),
      ah_message = snd (snd templ), ah_score_change = Some score_change,
      ah_triggered_at = Some now\<rparr>"

text \<open>
  Modelled from the spec: one evaluation of a subscription after a scoring cycle. A
  qualifying change writes one row unless the subscription is alerted within the window.
\<close>

definition alert_evaluator ::
  "int \<Rightarrow> alert_subscription_row \<Rightarrow> timestamp \<Rightarrow> real \<Rightarrow> int \<times> string \<times> string option \<Rightarrow>
   alert_history_row list \<Rightarrow> alert_history_row list" where
  "alert_evaluator dedupe_hours asub now score_change templ alert_history =
     (if qualifies asub score_change
      then (if alerted_in_window dedupe_hours asub now alert_history
            then alert_history
            else alert_history @ [new_alert asub now score_change templ])
      else alert_history)"

section \<open>The sort of \<^verbatim>\<open>IssuerTable.tsx\<close>\<close>

text \<open>
  An \<^verbatim>\<open>Issuer\<close> as \<^verbatim>\<open>types/issuer\<close> declares it; a \<^verbatim>\<open>number\<close> is read as a real, a
  field of type \<^verbatim>\<open>T | null\<close> is an \<open>option\<close>; the field names carry the prefix
  \<open>Issuer_\<close>. \<^verbatim>\<open>a[sortField]\<close> is a string, a number or
  \<^verbatim>\<open>null\<close>.
\<close>

record Issuer =
  Issuer_id :: real
  Issuer_name :: string
  Issuer_ticker :: "string option"
  Issuer_sector :: "string option"
  Issuer_country :: "string option"
  Issuer_score :: "real option"
  Issuer_bucket :: "string option"
  Issuer_delta_24h :: real
  Issuer_score_ts :: "string option"

datatype keyof_Issuer =
  K_id | K_name | K_ticker | K_sector | K_country | K_score | K_bucket | K_delta_24h | K_score_ts

datatype js_value = Null | String string | Number real

definition of_string :: "string option \<Rightarrow> js_value" where
  "of_string v = (case v of None \<Rightarrow> Null | Some x \<Rightarrow> String x)"

definition of_number :: "real option \<Rightarrow> js_value" where
  "of_number v = (case v of None \<Rightarrow> Null | Some x \<Rightarrow> Number x)"

fun get_field :: "Issuer \<Rightarrow> keyof_Issuer \<Rightarrow> js_value" where
  "get_field a K_id = Number (Issuer_id a)"
| "get_field a K_name = String (Issuer_name a)"
| "get_field a K_ticker = of_string (Issuer_ticker a)"
| "get_field a K_sector = of_string (Issuer_sector a)"
| "get_field a K_country = of_string (Issuer_country a)"
| "get_field a K_score = of_number (Issuer_score a)"
| "get_field a K_bucket = of_string (Issuer_bucket a)"
| "get_field a K_delta_24h = Number (Issuer_delta_24h a)"
| "get_field a K_score_ts = of_string (Issuer_score_ts a)"

datatype sort_direction = Asc | Desc

text \<open>
  The comparator of \<^verbatim>\<open>sortedIssuers\<close>. \<^verbatim>\<open>String.prototype.localeCompare\<close> belongs to
  the JavaScript engine and is an argument.
\<close>

definition compareFn ::
  "(string \<Rightarrow> string \<Rightarrow> real) \<Rightarrow> keyof_Issuer \<Rightarrow> sort_direction \<Rightarrow> Issuer \<Rightarrow> Issuer \<Rightarrow> real" where
  "compareFn localeCompare sortField sortDirection a b =
     (let aValue = get_field a sortField; bValue = get_field b sortField in
      if aValue = Null \<and> bValue = Null then 0
      else if aValue = Null then 1
      else if bValue = Null then - 1
      else (case (aValue, bValue) of
              (String x, String y) \<Rightarrow>
                (if sortDirection = Asc then localeCompare x y else localeCompare y x)
            | (Number x, Number y) \<Rightarrow>
                (if sortDirection = Asc then x - y else y - x)
            | _ \<Rightarrow> 0))"

text \<open>
  \<^verbatim>\<open>Array.prototype.sort\<close> is stable: it moves \<open>a\<close> before \<open>b\<close> only when the comparator
  says so. It is modelled by the stable insertion sort, which puts an element before the
  first element it does not compare greater than.
\<close>

fun insert_by :: "('a \<Rightarrow> 'a \<Rightarrow> real) \<Rightarrow> 'a \<Rightarrow> 'a list \<Rightarrow> 'a list" where
  "insert_by cmp x [] = [x]"
| "insert_by cmp x (y # ys) = (if cmp x y \<le> 0 then x # y # ys else y # insert_by cmp x ys)"

definition array_sort :: "('a \<Rightarrow> 'a \<Rightarrow> real) \<Rightarrow> 'a list \<Rightarrow> 'a list" where
  "array_sort cmp xs = foldr (insert_by cmp) xs []"

definition sortedIssuers ::
  "(string \<Rightarrow> string \<Rightarrow> real) \<Rightarrow> keyof_Issuer \<Rightarrow> sort_direction \<Rightarrow> Issuer list \<Rightarrow> Issuer list" where
  "sortedIssuers localeCompare sortField sortDirection issuers =
     array_sort (compareFn localeCompare sortField sortDirection) issuers"

section \<open>Predicates on rows\<close>


definition nulls_after :: "keyof_Issuer \<Rightarrow> Issuer \<Rightarrow> Issuer \<Rightarrow> bool" where
  "nulls_after f a b = (get_field a f = Null \<longrightarrow> get_field b f = Null)"

section \<open>Example tables\<close>

definition score_row_example :: "int \<Rightarrow> timestamp \<Rightarrow> real \<Rightarrow> score_row" where
  "score_row_example i t v =
     \<lparr>s_issuer_id = Some i, s_ts = t, s_score = v, s_bucket = ''A'', s_base = None,
      s_market = None, s_event_delta = None, s_macro_adj = None, s_model_version = None,
      s_explanation = None\<rparr>"

definition event_example :: "int \<Rightarrow> int \<Rightarrow> timestamp \<Rightarrow> real option \<Rightarrow> event_row" where
  "event_example n i t d =
     \<lparr>e_id = n, e_issuer_id = Some i, e_ts = t, e_type = ''earnings'', e_sentiment = Some 0.9,
      e_weight = Some 8, e_headline = None, e_url = None, e_raw_hash = None,
      e_decay_factor = d, e_source = None\<rparr>"

definition issuer_example :: "int \<Rightarrow> string \<Rightarrow> issuer_row" where
  "issuer_example n nm =
     \<lparr>i_id = n, i_name = nm, i_ticker = None, i_cik = None, i_sector = None,
      i_country = Some ''US''\<rparr>"

definition subscription_example :: "int \<Rightarrow> int \<Rightarrow> real \<Rightarrow> alert_subscription_row" where
  "subscription_example n i th =
     \<lparr>asub_id = n, asub_issuer_id = Some i, asub_email = Some ''desk@example.org'',
      asub_webhook_url = None, asub_threshold = Some th, asub_is_active = Some True\<rparr>"

definition alert_example :: "int \<Rightarrow> int option \<Rightarrow> int \<Rightarrow> timestamp option \<Rightarrow> alert_history_row" where
  "alert_example n sub i t =
     \<lparr>ah_id = n, ah_subscription_id = sub, ah_issuer_id = Some i,
      ah_alert_type = ''score_change'', ah_message = None, ah_score_change = Some 6,
      ah_triggered_at = t\<rparr>"

definition Issuer_example :: "real \<Rightarrow> real option \<Rightarrow> Issuer" where
  "Issuer_example n sc =
     \<lparr>Issuer_id = n, Issuer_name = ''Apple Inc'', Issuer_ticker = Some ''AAPL'',
      Issuer_sector = None, Issuer_country = None, Issuer_score = sc,
      Issuer_bucket = None, Issuer_delta_24h = 0, Issuer_score_ts = None\<rparr>"

definition score_example :: "score_row list" where
  "score_example = [score_row_example 1 0 87.2, score_row_example 1 5 88.1]"

definition event_table_example :: "event_row list" where
  "event_table_example =
     [event_example 1 1 (interval_hours 900) (Some 0.5),
      event_example 2 1 (interval_hours 950) (Some 0.1),
      event_example 3 1 (interval_hours 100) (Some 0.9),
      event_example 4 2 (interval_hours 990) (Some 1)]"

definition alert_history_example :: "alert_history_row list" where
  "alert_history_example =
     [alert_example 1 (Some 1) 1 (Some (interval_hours 90)),
      alert_example 2 None 1 (Some (interval_hours 95)),
      alert_example 3 (Some 1) 1 (Some (interval_hours 10)),
      alert_example 4 (Some 1) 1 None,
      alert_example 5 (Some 1) 9 (Some (interval_hours 99))]"


definition Issuers_example :: "Issuer list" where
  "Issuers_example =
     [Issuer_example 1 None, Issuer_example 2 (Some 80), Issuer_example 3 None,
      Issuer_example 4 (Some 90.5)]"

section \<open>Ordering and limiting\<close>

lemma limit_1_order_by_desc_max:
  assumes "rows \<noteq> []"
  shows "\<exists>r \<in> set rows. (\<forall>r' \<in> set rows. k r' \<le> k r) \<and> limit 1 (order_by_desc k rows) = [r]"
proof -
  let ?ys = "sort_key (\<lambda>r. - k r) rows"
  have ne: "?ys \<noteq> []"
    using assms by (metis length_sort length_0_conv)
  then obtain y ys where ys: "?ys = y # ys"
    by (cases ?ys) auto
  have srt: "sorted (map (\<lambda>r. - k r) ?ys)"
    by (rule sorted_sort_key)
  have st: "set ?ys = set rows"
    by simp
  have y_in: "y \<in> set rows"
    using ys st by (metis list.set_intros(1))
  have "\<forall>r' \<in> set rows. k r' \<le> k y"
  proof
    fix r' assume "r' \<in> set rows"
    then have "r' \<in> set (y # ys)" using ys st by simp
    then have "- k y \<le> - k r'"
      using srt ys by auto
    then show "k r' \<le> k y" by simp
  qed
  moreover have "limit 1 (order_by_desc k rows) = [y]"
    by (simp add: limit_def order_by_desc_def ys)
  ultimately show ?thesis using y_in by blast
qed

section \<open>Joins and filters\<close>

lemma in_inner_join:
  "(l, r) \<in> set (inner_join c ls rs) \<longleftrightarrow> l \<in> set ls \<and> r \<in> set rs \<and> c l r"
  by (auto simp: inner_join_def)

lemma in_left_join_row:
  "(l, m) \<in> set (case filter (c l') rs of [] \<Rightarrow> [(l', None)] | ms \<Rightarrow> map (\<lambda>r. (l', Some r)) ms) \<longleftrightarrow>
     l = l' \<and> (case m of None \<Rightarrow> \<forall>r \<in> set rs. \<not> c l r | Some r \<Rightarrow> r \<in> set rs \<and> c l r)"
proof (cases "filter (c l') rs")
  case Nil
  then have "\<forall>r \<in> set rs. \<not> c l' r"
    by (simp add: filter_empty_conv)
  with Nil show ?thesis
    by (auto split: option.splits)
next
  case (Cons x xs)
  have st: "set (x # xs) = {r \<in> set rs. c l' r}"
    using Cons by (metis set_filter)
  then have "x \<in> set rs \<and> c l' x"
    by auto
  with st Cons show ?thesis
    by (auto split: option.splits)
qed

lemma in_left_join:
  "(l, m) \<in> set (left_join c ls rs) \<longleftrightarrow>
     l \<in> set ls \<and> (case m of None \<Rightarrow> \<forall>r \<in> set rs. \<not> c l r | Some r \<Rightarrow> r \<in> set rs \<and> c l r)"
  unfolding left_join_def set_concat set_map
  by (auto simp: in_left_join_row)

lemma in_where_triggered_since:
  "(t, j) \<in> set (where_triggered_since bound js) \<longleftrightarrow>
     j \<in> set js \<and> ah_triggered_at (fst (fst j)) = Some t \<and> bound \<le> t"
  by (auto simp: where_triggered_since_def split: option.splits if_splits)

lemma order_by_desc_sorted:
  "sorted_wrt (\<lambda>a b. k b \<le> k a) (order_by_desc k rows)"
proof -
  have "sorted (map (\<lambda>r. - k r) (sort_key (\<lambda>r. - k r) rows))"
    by (rule sorted_sort_key)
  then show ?thesis
    by (simp add: order_by_desc_def sorted_wrt_map)
qed

lemma set_order_by_desc: "set (order_by_desc k rows) = set rows"
  by (simp add: order_by_desc_def)


section \<open>Score change without an earlier row\<close>

lemma get_score_change_no_previous:
  assumes "\<exists>s \<in> set score. s_issuer_id s = Some i"
    and "\<forall>l \<in> set score. \<forall>s \<in> set score. s_issuer_id l = Some i \<and> s_issuer_id s = Some i \<longrightarrow>
           s_ts l - interval_hours hours_back < s_ts s"
  shows "get_score_change i hours_back score = []"
proof -
  let ?rows = "filter (\<lambda>s. s_issuer_id s = Some i) score"
  have "?rows \<noteq> []" using assms(1) by (simp add: filter_empty_conv)
  from limit_1_order_by_desc_max [OF this, of s_ts]
  obtain l where l: "l \<in> set ?rows" "\<forall>r' \<in> set ?rows. s_ts r' \<le> s_ts l"
    "limit 1 (order_by_desc s_ts ?rows) = [l]"
    by blast
  have cs: "current_score i score = [(s_score l, s_ts l)]"
    unfolding current_score_def l(3) by simp
  have "\<forall>s \<in> set score. s_issuer_id s = Some i \<longrightarrow> s_ts l - interval_hours hours_back < s_ts s"
    using assms(2) l(1) by simp
  then have "filter (\<lambda>s. s_issuer_id s = Some i \<and> s_ts s \<le> s_ts l - interval_hours hours_back) score = []"
    by (auto simp: filter_empty_conv)
  then have "previous_score i hours_back score = []"
    unfolding previous_score_def cs
    by (simp add: scalar_subquery_def sql_le_def limit_def order_by_desc_def)
  then show ?thesis
    by (simp add: get_score_change_def cross_join_def)
qed

section \<open>The historical Score rows\<close>






section \<open>The default weights\<close>

lemma weight_base: "scoring_weight (default_model_metadata now) ''base'' = Some 0.55"
  by (simp add: scoring_weight_def default_model_metadata_def json_field_def json_number_def)

lemma weight_market: "scoring_weight (default_model_metadata now) ''market'' = Some 0.25"
  by (simp add: scoring_weight_def default_model_metadata_def json_field_def json_number_def)

lemma weight_event: "scoring_weight (default_model_metadata now) ''event'' = Some 0.12"
  by (simp add: scoring_weight_def default_model_metadata_def json_field_def json_number_def)

lemma weight_macro: "scoring_weight (default_model_metadata now) ''macro'' = Some 0.08"
  by (simp add: scoring_weight_def default_model_metadata_def json_field_def json_number_def)

section \<open>The comparator and the insertion sort\<close>

lemma compareFn_le_0:
  "compareFn lc f d a b \<le> 0 \<Longrightarrow> get_field a f = Null \<Longrightarrow> get_field b f = Null"
  by (auto simp: compareFn_def Let_def split: if_splits)

lemma compareFn_gt_0:
  "\<not> compareFn lc f d a b \<le> 0 \<Longrightarrow> get_field b f = Null \<Longrightarrow> get_field a f = Null"
  by (auto simp: compareFn_def Let_def split: if_splits)

lemma set_insert_by: "set (insert_by cmp x ys) = insert x (set ys)"
  by (induction ys) auto

lemma mset_insert_by: "mset (insert_by cmp x ys) = add_mset x (mset ys)"
  by (induction ys) auto

lemma mset_array_sort: "mset (array_sort cmp xs) = mset xs"
  by (induction xs) (auto simp: array_sort_def mset_insert_by)

lemma nulls_after_trans: "nulls_after f a b \<Longrightarrow> nulls_after f b c \<Longrightarrow> nulls_after f a c"
  by (simp add: nulls_after_def)

lemma insert_by_nulls_last:
  assumes "sorted_wrt (nulls_after f) ys"
  shows "sorted_wrt (nulls_after f) (insert_by (compareFn lc f d) x ys)"
  using assms
proof (induction ys)
  case Nil
  then show ?case by simp
next
  case (Cons y ys)
  from Cons.prems have tl: "sorted_wrt (nulls_after f) ys"
    and hd: "\<forall>z \<in> set ys. nulls_after f y z"
    by simp_all
  show ?case
  proof (cases "compareFn lc f d x y \<le> 0")
    case True
    have xy: "nulls_after f x y"
      unfolding nulls_after_def using compareFn_le_0 [OF True] by blast
    have "\<forall>z \<in> set (y # ys). nulls_after f x z"
    proof
      fix z assume "z \<in> set (y # ys)"
      then consider "z = y" | "z \<in> set ys" by auto
      then show "nulls_after f x z"
      proof cases
        case 1
        with xy show ?thesis by simp
      next
        case 2
        with hd have "nulls_after f y z" by blast
        with xy show ?thesis by (rule nulls_after_trans)
      qed
    qed
    with Cons.prems have "sorted_wrt (nulls_after f) (x # y # ys)"
      by (simp del: sorted_wrt.simps(2) add: sorted_wrt.simps(2) [of _ x])
    with True show ?thesis by simp
  next
    case False
    have yx: "nulls_after f y x"
      unfolding nulls_after_def using compareFn_gt_0 [OF False] by blast
    from Cons.IH [OF tl] have ih: "sorted_wrt (nulls_after f) (insert_by (compareFn lc f d) x ys)" .
    have "\<forall>z \<in> set (insert_by (compareFn lc f d) x ys). nulls_after f y z"
      using yx hd by (simp add: set_insert_by)
    with ih have "sorted_wrt (nulls_after f) (y # insert_by (compareFn lc f d) x ys)"
      by simp
    with False show ?thesis by simp
  qed
qed

lemma array_sort_nulls_last:
  "sorted_wrt (nulls_after f) (array_sort (compareFn lc f d) xs)"
proof (induction xs)
  case Nil
  show ?case by (simp add: array_sort_def)
next
  case (Cons x xs)
  have "array_sort (compareFn lc f d) (x # xs) =
        insert_by (compareFn lc f d) x (array_sort (compareFn lc f d) xs)"
    by (simp add: array_sort_def)
  with insert_by_nulls_last [OF Cons.IH] show ?case by simp
qed
text \<open>
  The same holds for every list in which no element compares greater than a later one,
  whichever algorithm produced it.
\<close>

lemma sorted_by_compareFn_nulls_last:
  assumes "sorted_wrt (\<lambda>a b. compareFn lc f d a b \<le> 0) ys"
  shows "sorted_wrt (nulls_after f) ys"
proof (rule sorted_wrt_mono_rel [OF _ assms])
  fix a b assume "compareFn lc f d a b \<le> 0"
  then show "nulls_after f a b"
    unfolding nulls_after_def using compareFn_le_0 by blast
qed

section \<open>The fix script's insert\<close>




section \<open>Results\<close>

text \<open>
  C9. \<^verbatim>\<open>get_latest_score\<close> returns no row for an issuer without Score rows, and
  otherwise exactly one row: the score, bucket, timestamp and four pillars of a Score row
  of the issuer with the greatest timestamp.
\<close>

theorem get_latest_score_one_or_none:
  "(\<not> (\<exists>s \<in> set score. s_issuer_id s = Some i) \<longrightarrow> get_latest_score i score = []) \<and>
   ((\<exists>s \<in> set score. s_issuer_id s = Some i) \<longrightarrow>
      (\<exists>s \<in> set score. s_issuer_id s = Some i \<and>
         (\<forall>s' \<in> set score. s_issuer_id s' = Some i \<longrightarrow> s_ts s' \<le> s_ts s) \<and>
         get_latest_score i score =
           [\<lparr>ls_score = s_score s, ls_bucket = s_bucket s, ls_ts = s_ts s, ls_base = s_base s,
             ls_market = s_market s, ls_event_delta = s_event_delta s,
             ls_macro_adj = s_macro_adj s\<rparr>]))"
proof (intro conjI impI)
  assume "\<not> (\<exists>s \<in> set score. s_issuer_id s = Some i)"
  then have "filter (\<lambda>s. s_issuer_id s = Some i) score = []"
    by (simp add: filter_empty_conv)
  then show "get_latest_score i score = []"
    by (simp add: get_latest_score_def limit_def order_by_desc_def)
next
  let ?rows = "filter (\<lambda>s. s_issuer_id s = Some i) score"
  assume "\<exists>s \<in> set score. s_issuer_id s = Some i"
  then have "?rows \<noteq> []"
    by (simp add: filter_empty_conv)
  from limit_1_order_by_desc_max [OF this, of s_ts]
  obtain r where r: "r \<in> set ?rows" "\<forall>r' \<in> set ?rows. s_ts r' \<le> s_ts r"
    "limit 1 (order_by_desc s_ts ?rows) = [r]"
    by blast
  have "get_latest_score i score =
          [\<lparr>ls_score = s_score r, ls_bucket = s_bucket r, ls_ts = s_ts r, ls_base = s_base r,
            ls_market = s_market r, ls_event_delta = s_event_delta r,
            ls_macro_adj = s_macro_adj r\<rparr>]"
    unfolding get_latest_score_def r(3) by (simp add: latest_score_of_def)
  then show "\<exists>s \<in> set score. s_issuer_id s = Some i \<and>
         (\<forall>s' \<in> set score. s_issuer_id s' = Some i \<longrightarrow> s_ts s' \<le> s_ts s) \<and>
         get_latest_score i score =
           [\<lparr>ls_score = s_score s, ls_bucket = s_bucket s, ls_ts = s_ts s, ls_base = s_base s,
             ls_market = s_market s, ls_event_delta = s_event_delta s,
             ls_macro_adj = s_macro_adj s\<rparr>]"
    using r(1,2) by auto
qed

theorem get_latest_score_one_or_none_witness:
  "(\<not> (\<exists>s \<in> set score_example. s_issuer_id s = Some 2) \<and>
      get_latest_score 2 score_example = []) \<and>
   ((\<exists>s \<in> set score_example. s_issuer_id s = Some 1) \<and>
      (\<exists>s \<in> set score_example. s_issuer_id s = Some 1 \<and>
         (\<forall>s' \<in> set score_example. s_issuer_id s' = Some 1 \<longrightarrow> s_ts s' \<le> s_ts s) \<and>
         get_latest_score 1 score_example =
           [\<lparr>ls_score = s_score s, ls_bucket = s_bucket s, ls_ts = s_ts s, ls_base = s_base s,
             ls_market = s_market s, ls_event_delta = s_event_delta s,
             ls_macro_adj = s_macro_adj s\<rparr>])) \<and>
   get_latest_score 1 score_example =
     [\<lparr>ls_score = 88.1, ls_bucket = ''A'', ls_ts = 5, ls_base = None, ls_market = None,
       ls_event_delta = None, ls_macro_adj = None\<rparr>]"
proof -
  have "get_latest_score 1 score_example =
     [\<lparr>ls_score = 88.1, ls_bucket = ''A'', ls_ts = 5, ls_base = None, ls_market = None,
       ls_event_delta = None, ls_macro_adj = None\<rparr>]"
    by (simp add: get_latest_score_def limit_def order_by_desc_def latest_score_of_def
        score_example_def score_row_example_def)
  then show ?thesis
    using get_latest_score_one_or_none [of score_example 2]
      get_latest_score_one_or_none [of score_example 1]
    by (simp add: score_example_def score_row_example_def)
qed

text \<open>
  C1. With a single Score row of issuer 1 and a lookback of 24 hours no Score row lies at
  or before the boundary; \<^verbatim>\<open>previous_score\<close> is then empty, the \<^verbatim>\<open>CROSS JOIN\<close> has no
  row, and \<^verbatim>\<open>get_score_change\<close> returns no row instead of the fallback row with
  \<^verbatim>\<open>score_change = 0\<close>. The same holds for the first tuple of the historical scores
  alone. With a second row 24 hours older the function returns the one row of the change.
\<close>

theorem get_score_change_single_row:
  "get_score_change 1 24 [score_row_example 1 0 87.2] = [] \<and>
   get_score_change 1 get_score_change_hours_back_default
     [values_row 0 1 48 87.2 ''AA'' 60.5 12.8 8.5 5.4] = [] \<and>
   get_score_change 1 24
     [score_row_example 1 0 82.1, score_row_example 1 (interval_hours 24) 88.1] =
     [\<lparr>sc_score_change = 6, sc_current_score = 88.1, sc_previous_score = 82.1\<rparr>]"
  by (simp add: get_score_change_def cross_join_def current_score_def previous_score_def
    limit_def order_by_desc_def scalar_subquery_def sql_le_def interval_hours_def coalesce_def
    score_row_example_def values_row_def get_score_change_hours_back_default_def)

text \<open>
  C5, as amended. Every row that \<^verbatim>\<open>get_active_events\<close> returns carries the id, type,
  headline, sentiment, weight, decay factor and timestamp of an event of the issuer asked
  for, whose timestamp is at or after \<open>hours_back\<close> hours before now and whose
  \<^verbatim>\<open>decay_factor\<close> is not NULL and strictly greater than 0.1; so no returned row has a
  decay factor of 0.1 or less. The timestamp has no upper bound.
\<close>

theorem get_active_events_only:
  assumes "r \<in> set (get_active_events i hours_back now event)"
  shows "\<exists>e \<in> set event. e_issuer_id e = Some i \<and>
           now - interval_hours hours_back \<le> e_ts e \<and>
           (\<exists>d. e_decay_factor e = Some d \<and> 0.1 < d \<and> ae_decay_factor r = Some d) \<and>
           ae_event_id r = e_id e \<and> ae_event_type r = e_type e \<and>
           ae_headline r = e_headline e \<and> ae_sentiment r = e_sentiment e \<and>
           ae_weight r = e_weight e \<and> ae_ts r = e_ts e"
  using assms
  by (auto simp: get_active_events_def order_by_desc_def sql_gt_def active_event_of_def
      split: option.splits)

theorem get_active_events_only_witness:
  "\<lparr>ae_event_id = 1, ae_event_type = ''earnings'', ae_headline = None, ae_sentiment = Some 0.9,
     ae_weight = Some 8, ae_decay_factor = Some 0.5, ae_ts = interval_hours 900\<rparr>
     \<in> set (get_active_events 1 get_active_events_hours_back_default (interval_hours 1000)
              event_table_example) \<and>
   (\<exists>e \<in> set event_table_example. e_issuer_id e = Some 1 \<and>
      interval_hours 1000 - interval_hours get_active_events_hours_back_default \<le> e_ts e \<and>
      (\<exists>d. e_decay_factor e = Some d \<and> 0.1 < d \<and> Some 0.5 = Some d) \<and>
      1 = e_id e \<and> ''earnings'' = e_type e \<and> None = e_headline e \<and>
      Some 0.9 = e_sentiment e \<and> Some 8 = e_weight e \<and> interval_hours 900 = e_ts e) \<and>
   get_active_events 1 get_active_events_hours_back_default (interval_hours 1000)
       event_table_example =
     [\<lparr>ae_event_id = 1, ae_event_type = ''earnings'', ae_headline = None,
        ae_sentiment = Some 0.9, ae_weight = Some 8, ae_decay_factor = Some 0.5,
        ae_ts = interval_hours 900\<rparr>]"
proof -
  let ?r = "\<lparr>ae_event_id = 1, ae_event_type = ''earnings'', ae_headline = None,
     ae_sentiment = Some 0.9, ae_weight = Some 8, ae_decay_factor = Some 0.5,
     ae_ts = interval_hours 900\<rparr>"
  have ev: "get_active_events 1 get_active_events_hours_back_default (interval_hours 1000)
       event_table_example = [?r]"
    by (simp add: get_active_events_def order_by_desc_def sql_gt_def event_example_def
        event_table_example_def interval_hours_def get_active_events_hours_back_default_def
        active_event_of_def)
  then have h: "?r \<in> set (get_active_events 1 get_active_events_hours_back_default
      (interval_hours 1000) event_table_example)"
    by simp
  from get_active_events_only [OF h] have "\<exists>e \<in> set event_table_example. e_issuer_id e = Some 1 \<and>
      interval_hours 1000 - interval_hours get_active_events_hours_back_default \<le> e_ts e \<and>
      (\<exists>d. e_decay_factor e = Some d \<and> 0.1 < d \<and> Some 0.5 = Some d) \<and>
      1 = e_id e \<and> ''earnings'' = e_type e \<and> None = e_headline e \<and>
      Some 0.9 = e_sentiment e \<and> Some 8 = e_weight e \<and> interval_hours 900 = e_ts e"
    by simp
  with h ev show ?thesis
    by blast
qed

text \<open>
  C5, as stated, fails: with now at hour 1000 and \<open>hours_back = 168\<close> the function
  returns an event of the issuer dated hour 1001, which does not lie within the last 168
  hours.
\<close>

theorem get_active_events_future_counterexample:
  "get_active_events 1 168 (interval_hours 1000)
       [event_example 5 1 (interval_hours 1001) (Some 0.5)] =
     [\<lparr>ae_event_id = 5, ae_event_type = ''earnings'', ae_headline = None,
        ae_sentiment = Some 0.9, ae_weight = Some 8, ae_decay_factor = Some 0.5,
        ae_ts = interval_hours 1001\<rparr>] \<and>
   interval_hours 1000 < interval_hours 1001"
  by (simp add: get_active_events_def order_by_desc_def sql_gt_def event_example_def
      interval_hours_def active_event_of_def)

text \<open>
  C8, as amended. Every row of \<^verbatim>\<open>recent_alerts\<close> comes from an \<^verbatim>\<open>alert_history\<close> row
  whose \<^verbatim>\<open>triggered_at\<close> is not NULL and at or after 24 hours before now, carries the
  name and ticker of the issuer that row refers to, and the email and webhook of its
  subscription when the subscription exists (NULL for both otherwise); the rows are in
  descending order of \<^verbatim>\<open>triggered_at\<close>. The timestamp has no upper bound.
\<close>

theorem recent_alerts_rows:
  "(\<forall>r \<in> set (recent_alerts now alert_history issuer alert_subscription).
      \<exists>ah \<in> set alert_history. \<exists>i \<in> set issuer. \<exists>t.
        ah_issuer_id ah = Some (i_id i) \<and>
        ah_triggered_at ah = Some t \<and> now - interval_hours 24 \<le> t \<and>
        ra_id r = ah_id ah \<and> ra_alert_type r = ah_alert_type ah \<and>
        ra_message r = ah_message ah \<and> ra_score_change r = ah_score_change ah \<and>
        ra_triggered_at r = Some t \<and>
        ra_issuer_name r = i_name i \<and> ra_ticker r = i_ticker i \<and>
        ((\<exists>asub \<in> set alert_subscription.
            ah_subscription_id ah = Some (asub_id asub) \<and>
            ra_email r = asub_email asub \<and> ra_webhook_url r = asub_webhook_url asub) \<or>
         ((\<forall>asub \<in> set alert_subscription. ah_subscription_id ah \<noteq> Some (asub_id asub)) \<and>
            ra_email r = None \<and> ra_webhook_url r = None))) \<and>
   sorted_wrt (\<lambda>a b. \<exists>ta tb. ra_triggered_at a = Some ta \<and> ra_triggered_at b = Some tb \<and> tb \<le> ta)
     (recent_alerts now alert_history issuer alert_subscription)"
proof (intro conjI ballI)
  let ?js = "left_join (\<lambda>(ah, i) asub. ah_subscription_id ah = Some (asub_id asub))
                (inner_join (\<lambda>ah i. ah_issuer_id ah = Some (i_id i)) alert_history issuer)
                alert_subscription"
  let ?ws = "where_triggered_since (now - interval_hours 24) ?js"
  {
    fix r assume "r \<in> set (recent_alerts now alert_history issuer alert_subscription)"
    then obtain t ah i m where tj: "(t, (ah, i), m) \<in> set ?ws" and r: "r = recent_alert_of ((ah, i), m)"
      by (auto simp: recent_alerts_def set_order_by_desc)
    from tj have j: "((ah, i), m) \<in> set ?js" and t: "ah_triggered_at ah = Some t"
      "now - interval_hours 24 \<le> t"
      by (simp_all add: in_where_triggered_since)
    from j have ai: "(ah, i) \<in> set (inner_join (\<lambda>ah i. ah_issuer_id ah = Some (i_id i)) alert_history issuer)"
      and m: "case m of None \<Rightarrow> \<forall>asub \<in> set alert_subscription. ah_subscription_id ah \<noteq> Some (asub_id asub)
                | Some asub \<Rightarrow> asub \<in> set alert_subscription \<and> ah_subscription_id ah = Some (asub_id asub)"
      by (auto simp: in_left_join split: option.splits)
    from ai have a: "ah \<in> set alert_history" "i \<in> set issuer" "ah_issuer_id ah = Some (i_id i)"
      by (simp_all add: in_inner_join)
    show "\<exists>ah \<in> set alert_history. \<exists>i \<in> set issuer. \<exists>t.
        ah_issuer_id ah = Some (i_id i) \<and>
        ah_triggered_at ah = Some t \<and> now - interval_hours 24 \<le> t \<and>
        ra_id r = ah_id ah \<and> ra_alert_type r = ah_alert_type ah \<and>
        ra_message r = ah_message ah \<and> ra_score_change r = ah_score_change ah \<and>
        ra_triggered_at r = Some t \<and>
        ra_issuer_name r = i_name i \<and> ra_ticker r = i_ticker i \<and>
        ((\<exists>asub \<in> set alert_subscription.
            ah_subscription_id ah = Some (asub_id asub) \<and>
            ra_email r = asub_email asub \<and> ra_webhook_url r = asub_webhook_url asub) \<or>
         ((\<forall>asub \<in> set alert_subscription. ah_subscription_id ah \<noteq> Some (asub_id asub)) \<and>
            ra_email r = None \<and> ra_webhook_url r = None))"
    proof (cases m)
      case None
      with a t m r show ?thesis
        by (intro bexI [of _ ah] bexI [of _ i] exI [of _ t]) (simp_all add: recent_alert_of_def)
    next
      case (Some asub)
      with a t m r show ?thesis
        by (intro bexI [of _ ah] bexI [of _ i] exI [of _ t]) (auto simp: recent_alert_of_def)
    qed
  }
  have "sorted_wrt (\<lambda>a b. fst b \<le> fst a) (order_by_desc fst ?ws)"
    by (rule order_by_desc_sorted)
  then have "sorted_wrt (\<lambda>a b. ah_triggered_at (fst (fst (snd a))) = Some (fst a) \<and>
                 ah_triggered_at (fst (fst (snd b))) = Some (fst b) \<and> fst b \<le> fst a)
               (order_by_desc fst ?ws)"
    by (rule sorted_wrt_mono_rel [rotated])
       (auto simp: set_order_by_desc in_where_triggered_since)
  then have "sorted_wrt (\<lambda>a b. \<exists>ta tb. ra_triggered_at (recent_alert_of (snd a)) = Some ta \<and>
                 ra_triggered_at (recent_alert_of (snd b)) = Some tb \<and> tb \<le> ta)
               (order_by_desc fst ?ws)"
    by (rule sorted_wrt_mono_rel [rotated]) (auto simp: recent_alert_of_def split: prod.splits)
  then show "sorted_wrt (\<lambda>a b. \<exists>ta tb. ra_triggered_at a = Some ta \<and> ra_triggered_at b = Some tb \<and> tb \<le> ta)
     (recent_alerts now alert_history issuer alert_subscription)"
    by (simp add: recent_alerts_def sorted_wrt_map)
qed

theorem recent_alerts_rows_witness:
  "recent_alert_of ((alert_example 2 None 1 (Some (interval_hours 95)),
                     issuer_example 1 ''Apple Inc''), None)
     \<in> set (recent_alerts (interval_hours 100) alert_history_example
          [issuer_example 1 ''Apple Inc''] [subscription_example 1 1 5]) \<and>
   (\<exists>ah \<in> set alert_history_example. \<exists>i \<in> set [issuer_example 1 ''Apple Inc'']. \<exists>t.
      ah_issuer_id ah = Some (i_id i) \<and>
      ah_triggered_at ah = Some t \<and> interval_hours 100 - interval_hours 24 \<le> t \<and>
      ra_id (recent_alert_of ((alert_example 2 None 1 (Some (interval_hours 95)),
                     issuer_example 1 ''Apple Inc''), None)) = ah_id ah \<and>
      ra_triggered_at (recent_alert_of ((alert_example 2 None 1 (Some (interval_hours 95)),
                     issuer_example 1 ''Apple Inc''), None)) = Some t \<and>
      ra_issuer_name (recent_alert_of ((alert_example 2 None 1 (Some (interval_hours 95)),
                     issuer_example 1 ''Apple Inc''), None)) = i_name i) \<and>
   sorted_wrt (\<lambda>a b. \<exists>ta tb. ra_triggered_at a = Some ta \<and> ra_triggered_at b = Some tb \<and> tb \<le> ta)
     (recent_alerts (interval_hours 100) alert_history_example
        [issuer_example 1 ''Apple Inc''] [subscription_example 1 1 5])"
proof -
  let ?r = "recent_alert_of ((alert_example 2 None 1 (Some (interval_hours 95)),
                     issuer_example 1 ''Apple Inc''), None)"
  let ?rs = "recent_alerts (interval_hours 100) alert_history_example
          [issuer_example 1 ''Apple Inc''] [subscription_example 1 1 5]"
  have h: "?r \<in> set ?rs"
    by (simp add: recent_alerts_def order_by_desc_def where_triggered_since_def left_join_def
        inner_join_def alert_history_example_def alert_example_def
        issuer_example_def subscription_example_def interval_hours_def)
  note t = recent_alerts_rows [of "interval_hours 100" alert_history_example
      "[issuer_example 1 ''Apple Inc'']" "[subscription_example 1 1 5]"]
  from t have "\<forall>r \<in> set ?rs. \<exists>ah \<in> set alert_history_example.
      \<exists>i \<in> set [issuer_example 1 ''Apple Inc'']. \<exists>t.
      ah_issuer_id ah = Some (i_id i) \<and>
      ah_triggered_at ah = Some t \<and> interval_hours 100 - interval_hours 24 \<le> t \<and>
      ra_id r = ah_id ah \<and> ra_triggered_at r = Some t \<and> ra_issuer_name r = i_name i"
    by blast
  with h have "\<exists>ah \<in> set alert_history_example.
      \<exists>i \<in> set [issuer_example 1 ''Apple Inc'']. \<exists>t.
      ah_issuer_id ah = Some (i_id i) \<and>
      ah_triggered_at ah = Some t \<and> interval_hours 100 - interval_hours 24 \<le> t \<and>
      ra_id ?r = ah_id ah \<and> ra_triggered_at ?r = Some t \<and> ra_issuer_name ?r = i_name i"
    by blast
  with h t show ?thesis
    by blast
qed

text \<open>
  C8, as stated, fails: with now at hour 100 the view returns an alert whose
  \<^verbatim>\<open>triggered_at\<close> is hour 500, which does not lie within the trailing 24 hours.
\<close>

theorem recent_alerts_future_counterexample:
  "recent_alerts (interval_hours 100) [alert_example 6 None 1 (Some (interval_hours 500))]
       [issuer_example 1 ''Apple Inc''] [] =
     [\<lparr>ra_id = 6, ra_alert_type = ''score_change'', ra_message = None,
        ra_score_change = Some 6, ra_triggered_at = Some (interval_hours 500),
        ra_issuer_name = ''Apple Inc'', ra_ticker = None, ra_email = None,
        ra_webhook_url = None\<rparr>] \<and>
   interval_hours 100 < interval_hours 500"
  by (simp add: recent_alerts_def order_by_desc_def where_triggered_since_def left_join_def
      inner_join_def recent_alert_of_def alert_example_def issuer_example_def interval_hours_def)

text \<open>
  C7. The default row of \<^verbatim>\<open>model_metadata\<close> carries the pillar weights 0.55, 0.25, 0.12
  and 0.08 under \<^verbatim>\<open>scoring_weights\<close>, the environment file sets the same four values,
  and in both places the four weights add up to exactly 1.
\<close>

theorem default_scoring_weights:
  "scoring_weight (default_model_metadata now) ''base'' = Some 0.55 \<and>
   scoring_weight (default_model_metadata now) ''market'' = Some 0.25 \<and>
   scoring_weight (default_model_metadata now) ''event'' = Some 0.12 \<and>
   scoring_weight (default_model_metadata now) ''macro'' = Some 0.08 \<and>
   sql_add (sql_add (sql_add (scoring_weight (default_model_metadata now) ''base'')
                             (scoring_weight (default_model_metadata now) ''market''))
                    (scoring_weight (default_model_metadata now) ''event''))
           (scoring_weight (default_model_metadata now) ''macro'') = Some 1 \<and>
   SCORING_WEIGHTS_BASE = 0.55 \<and> SCORING_WEIGHTS_MARKET = 0.25 \<and>
   SCORING_WEIGHTS_EVENT = 0.12 \<and> SCORING_WEIGHTS_MACRO = 0.08 \<and>
   SCORING_WEIGHTS_BASE + SCORING_WEIGHTS_MARKET + SCORING_WEIGHTS_EVENT + SCORING_WEIGHTS_MACRO = 1"
  unfolding weight_base weight_market weight_event weight_macro
  by (simp add: sql_add_def SCORING_WEIGHTS_BASE_def SCORING_WEIGHTS_MARKET_def
      SCORING_WEIGHTS_EVENT_def SCORING_WEIGHTS_MACRO_def)





text \<open>
  C10. The sorted list holds the same issuers as the given one, and whatever the sort
  field, the direction and the string comparison, an issuer whose value for the sort field
  is \<^verbatim>\<open>null\<close> is followed only by issuers whose value is \<^verbatim>\<open>null\<close>: every issuer with
  a value comes before every issuer without one.
\<close>

theorem sortedIssuers_nulls_last:
  "mset (sortedIssuers localeCompare sortField sortDirection issuers) = mset issuers \<and>
   (\<forall>i j. i < j \<and> j < length (sortedIssuers localeCompare sortField sortDirection issuers) \<and>
      get_field (sortedIssuers localeCompare sortField sortDirection issuers ! i) sortField = Null \<longrightarrow>
      get_field (sortedIssuers localeCompare sortField sortDirection issuers ! j) sortField = Null)"
proof (intro conjI allI impI)
  show "mset (sortedIssuers localeCompare sortField sortDirection issuers) = mset issuers"
    unfolding sortedIssuers_def by (rule mset_array_sort)
next
  let ?S = "sortedIssuers localeCompare sortField sortDirection issuers"
  fix i j
  assume a: "i < j \<and> j < length ?S \<and> get_field (?S ! i) sortField = Null"
  have sw: "sorted_wrt (nulls_after sortField) ?S"
    unfolding sortedIssuers_def by (rule array_sort_nulls_last)
  from a have ij: "i < j" by (rule conjunct1)
  from a have jl: "j < length ?S" by (rule conjunct1 [OF conjunct2])
  from a have n: "get_field (?S ! i) sortField = Null" by (rule conjunct2 [OF conjunct2])
  from sorted_wrt_nth_less [OF sw ij jl] have "nulls_after sortField (?S ! i) (?S ! j)" .
  with n show "get_field (?S ! j) sortField = Null"
    by (simp add: nulls_after_def)
qed

theorem sortedIssuers_nulls_last_witness:
  "map Issuer_id (sortedIssuers (\<lambda>a b. 0) K_score Desc Issuers_example) = [4, 2, 1, 3] \<and>
   (2::nat) < 3 \<and> 3 < length (sortedIssuers (\<lambda>a b. 0) K_score Desc Issuers_example) \<and>
   get_field (sortedIssuers (\<lambda>a b. 0) K_score Desc Issuers_example ! 2) K_score = Null \<and>
   get_field (sortedIssuers (\<lambda>a b. 0) K_score Desc Issuers_example ! 3) K_score = Null \<and>
   map Issuer_id (sortedIssuers (\<lambda>a b. 0) K_score Asc Issuers_example) = [2, 4, 1, 3] \<and>
   3 < length (sortedIssuers (\<lambda>a b. 0) K_score Asc Issuers_example) \<and>
   get_field (sortedIssuers (\<lambda>a b. 0) K_score Asc Issuers_example ! 2) K_score = Null \<and>
   get_field (sortedIssuers (\<lambda>a b. 0) K_score Asc Issuers_example ! 3) K_score = Null"
proof -
  let ?D = "sortedIssuers (\<lambda>a b. 0) K_score Desc Issuers_example"
  let ?A = "sortedIssuers (\<lambda>a b. 0) K_score Asc Issuers_example"
  have d: "?D = [Issuer_example 4 (Some 90.5), Issuer_example 2 (Some 80),
                 Issuer_example 1 None, Issuer_example 3 None]"
    by (simp add: sortedIssuers_def array_sort_def Issuers_example_def compareFn_def
        Issuer_example_def of_number_def)
  have a: "?A = [Issuer_example 2 (Some 80), Issuer_example 4 (Some 90.5),
                 Issuer_example 1 None, Issuer_example 3 None]"
    by (simp add: sortedIssuers_def array_sort_def Issuers_example_def compareFn_def
        Issuer_example_def of_number_def)
  have ids: "map Issuer_id ?D = [4, 2, 1, 3]" "map Issuer_id ?A = [2, 4, 1, 3]"
    unfolding d a by (simp_all add: Issuer_example_def)
  have lt: "(2::nat) < 3" by simp
  have len: "3 < length ?D" "3 < length ?A"
    unfolding d a by simp_all
  have n2: "get_field (?D ! 2) K_score = Null" "get_field (?A ! 2) K_score = Null"
    unfolding d a by (simp_all add: Issuer_example_def of_number_def)
  from sortedIssuers_nulls_last [of "\<lambda>a b. 0" K_score Desc Issuers_example] lt len(1) n2(1)
  have d3: "get_field (?D ! 3) K_score = Null"
    by blast
  from sortedIssuers_nulls_last [of "\<lambda>a b. 0" K_score Asc Issuers_example] lt len(2) n2(2)
  have a3: "get_field (?A ! 3) K_score = Null"
    by blast
  from ids lt len n2 d3 a3 show ?thesis
    by blast
qed

text \<open>
  C4. With a positive half-life the decay factor of an event is
  \<open>exp (- ln 2 \<sqdot> elapsed hours / half-life)\<close>; the default half-life is 7 days of 24 hours;
  at the event's own timestamp the factor is 1, the default of the column; at a later
  time it is never greater than at an earlier one; it is always positive.
\<close>

theorem decay_factor_monotone:
  assumes "0 < half_life_hours" and "t1 < t2"
  shows "decay_factor half_life_hours event now =
           exp (- ln 2 * elapsed_hours event now / half_life_hours) \<and>
         default_half_life_hours = 7 * 24 \<and>
         decay_factor half_life_hours event (e_ts event) = 1 \<and>
         decay_factor half_life_hours event (e_ts event) = event_decay_factor_default \<and>
         decay_factor half_life_hours event t2 \<le> decay_factor half_life_hours event t1 \<and>
         0 < decay_factor half_life_hours event now"
proof (intro conjI)
  show "decay_factor half_life_hours event now =
           exp (- ln 2 * elapsed_hours event now / half_life_hours)"
    by (simp add: decay_factor_def)
  show "default_half_life_hours = 7 * 24"
    by (simp add: default_half_life_hours_def EVENT_HALF_LIFE_DAYS_def)
  show at_ingestion: "decay_factor half_life_hours event (e_ts event) = 1"
    by (simp add: decay_factor_def elapsed_hours_def)
  then show "decay_factor half_life_hours event (e_ts event) = event_decay_factor_default"
    by (simp add: event_decay_factor_default_def)
  show "0 < decay_factor half_life_hours event now"
    by (simp add: decay_factor_def)
  have "elapsed_hours event t1 \<le> elapsed_hours event t2"
    using assms(2) by (simp add: elapsed_hours_def divide_right_mono)
  moreover have "0 < ln (2::real)"
    by simp
  ultimately have "ln 2 * elapsed_hours event t1 \<le> ln 2 * elapsed_hours event t2"
    by (simp add: mult_left_mono)
  then have "ln 2 * elapsed_hours event t1 / half_life_hours
               \<le> ln 2 * elapsed_hours event t2 / half_life_hours"
    using assms(1) by (simp add: divide_right_mono)
  then have "- ln 2 * elapsed_hours event t2 / half_life_hours
               \<le> - ln 2 * elapsed_hours event t1 / half_life_hours"
    by simp
  then show "decay_factor half_life_hours event t2 \<le> decay_factor half_life_hours event t1"
    unfolding decay_factor_def by (simp only: exp_le_cancel_iff)
qed

theorem decay_factor_monotone_witness:
  "0 < default_half_life_hours \<and> (0::int) < interval_hours 168 \<and>
   default_half_life_hours = 7 * 24 \<and>
   decay_factor default_half_life_hours (event_example 1 1 0 (Some 1)) 0 = 1 \<and>
   decay_factor default_half_life_hours (event_example 1 1 0 (Some 1)) (interval_hours 168)
     \<le> decay_factor default_half_life_hours (event_example 1 1 0 (Some 1)) 0 \<and>
   0 < decay_factor default_half_life_hours (event_example 1 1 0 (Some 1)) (interval_hours 168)"
proof -
  have h: "0 < default_half_life_hours"
    by (simp add: default_half_life_hours_def EVENT_HALF_LIFE_DAYS_def)
  have t: "(0::int) < interval_hours 168"
    by (simp add: interval_hours_def)
  have e: "e_ts (event_example 1 1 0 (Some 1)) = 0"
    by (simp add: event_example_def)
  note th = decay_factor_monotone [OF h t, of "event_example 1 1 0 (Some 1)" "interval_hours 168",
      unfolded e]
  show ?thesis
    using h t th by blast
qed


text \<open>
  C2. When two scoring cycles lie within one dedupe window and both score changes reach
  the threshold of an active subscription, the two cycles together add at most one
  \<^verbatim>\<open>alert_history\<close> row; when the subscription had no alert in the window of the first
  cycle they add exactly one, the alert of the first cycle, and the second is suppressed.
\<close>

theorem alert_evaluator_dedupe:
  assumes "qualifies asub change1" and "qualifies asub change2"
    and "t1 \<le> t2" and "t2 - t1 \<le> interval_hours dedupe_hours"
  shows "(\<exists>rows. alert_evaluator dedupe_hours asub t2 change2 templ2
                    (alert_evaluator dedupe_hours asub t1 change1 templ1 alert_history) =
                  alert_history @ rows \<and> length rows \<le> 1) \<and>
         (\<not> alerted_in_window dedupe_hours asub t1 alert_history \<longrightarrow>
            alert_evaluator dedupe_hours asub t2 change2 templ2
              (alert_evaluator dedupe_hours asub t1 change1 templ1 alert_history) =
            alert_history @ [new_alert asub t1 change1 templ1])"
proof (cases "alerted_in_window dedupe_hours asub t1 alert_history")
  case True
  then have first: "alert_evaluator dedupe_hours asub t1 change1 templ1 alert_history = alert_history"
    by (simp add: alert_evaluator_def)
  have "alert_evaluator dedupe_hours asub t2 change2 templ2 alert_history = alert_history @ [] \<or>
        alert_evaluator dedupe_hours asub t2 change2 templ2 alert_history =
          alert_history @ [new_alert asub t2 change2 templ2]"
    by (simp add: alert_evaluator_def)
  then have "\<exists>rows. alert_evaluator dedupe_hours asub t2 change2 templ2 alert_history =
                  alert_history @ rows \<and> length rows \<le> 1"
    by (metis length_Cons list.size(3) le_numeral_extra(4) zero_le One_nat_def)
  with first True show ?thesis
    by simp
next
  case False
  let ?h1 = "alert_history @ [new_alert asub t1 change1 templ1]"
  have first: "alert_evaluator dedupe_hours asub t1 change1 templ1 alert_history = ?h1"
    using assms(1) False by (simp add: alert_evaluator_def)
  have "alerted_in_window dedupe_hours asub t2 ?h1"
    using assms(3,4) by (simp add: alerted_in_window_def new_alert_def)
  then have second: "alert_evaluator dedupe_hours asub t2 change2 templ2 ?h1 = ?h1"
    by (simp add: alert_evaluator_def)
  have "length [new_alert asub t1 change1 templ1] \<le> 1"
    by simp
  with first second show ?thesis
    by (metis (no_types))
qed

theorem alert_evaluator_dedupe_witness:
  "qualifies (subscription_example 1 1 5) 6 \<and> qualifies (subscription_example 1 1 5) (- 7.5) \<and>
   interval_hours 100 \<le> interval_hours 110 \<and>
   interval_hours 110 - interval_hours 100 \<le> interval_hours ALERT_THRESHOLD_HOURS \<and>
   \<not> alerted_in_window ALERT_THRESHOLD_HOURS (subscription_example 1 1 5) (interval_hours 100) [] \<and>
   alert_evaluator ALERT_THRESHOLD_HOURS (subscription_example 1 1 5) (interval_hours 110) (- 7.5)
       (2, ''score_change'', None)
       (alert_evaluator ALERT_THRESHOLD_HOURS (subscription_example 1 1 5) (interval_hours 100) 6
          (1, ''score_change'', None) []) =
     [new_alert (subscription_example 1 1 5) (interval_hours 100) 6 (1, ''score_change'', None)]"
proof -
  have q1: "qualifies (subscription_example 1 1 5) 6"
    by (simp add: qualifies_def subscription_example_def)
  have q2: "qualifies (subscription_example 1 1 5) (- 7.5)"
    by (simp add: qualifies_def subscription_example_def)
  have t: "interval_hours 100 \<le> interval_hours 110"
    by (simp add: interval_hours_def)
  have w: "interval_hours 110 - interval_hours 100 \<le> interval_hours ALERT_THRESHOLD_HOURS"
    by (simp add: interval_hours_def ALERT_THRESHOLD_HOURS_def)
  have n: "\<not> alerted_in_window ALERT_THRESHOLD_HOURS (subscription_example 1 1 5) (interval_hours 100) []"
    by (simp add: alerted_in_window_def)
  from alert_evaluator_dedupe [OF q1 q2 t w, of "(2, ''score_change'', None)"
      "(1, ''score_change'', None)" "[]"] n
  have "alert_evaluator ALERT_THRESHOLD_HOURS (subscription_example 1 1 5) (interval_hours 110) (- 7.5)
       (2, ''score_change'', None)
       (alert_evaluator ALERT_THRESHOLD_HOURS (subscription_example 1 1 5) (interval_hours 100) 6
          (1, ''score_change'', None) []) =
     [] @ [new_alert (subscription_example 1 1 5) (interval_hours 100) 6 (1, ''score_change'', None)]"
    by blast
  with q1 q2 t w n show ?thesis
    by simp
qed

end
